theory Spec2Isabelle
  imports Complex_Main "HOL-Library.Multiset"
begin

section \<open>Calendar dates as used by the application\<close>

text \<open>
  The application (\<^verbatim>\<open>app.py\<close>) works on \<^verbatim>\<open>datetime.date\<close> values and steps them with
  \<^verbatim>\<open>dateutil.relativedelta\<close>.  A date is a triple of Python integers; the class only
  admits years 1 to 9999, months 1 to 12 and a day that exists in that month, and raises
  \<^verbatim>\<open>ValueError\<close> otherwise.  \<^verbatim>\<open>calendar.monthrange\<close> raises \<^verbatim>\<open>IllegalMonthError\<close> for a
  month outside 1..12.
\<close>

datatype exn = ValueError | IllegalMonthError | KeyError

record date =
  year :: int
  month :: int
  day :: int

definition MINYEAR :: int where
  "MINYEAR = 1"

definition MAXYEAR :: int where
  "MAXYEAR = 9999"

definition isleap :: "int \<Rightarrow> bool" where
  "isleap y = (y mod 4 = 0 \<and> (y mod 100 \<noteq> 0 \<or> y mod 400 = 0))"

definition mdays :: "int \<Rightarrow> int" where
  "mdays m = (if m = 2 then 28 else if m = 4 \<or> m = 6 \<or> m = 9 \<or> m = 11 then 30 else 31)"

text \<open>\<^verbatim>\<open>calendar.monthrange(year, month)[1]\<close>: the number of days of the month.\<close>

definition monthrange_ndays :: "int \<Rightarrow> int \<Rightarrow> exn + int" where
  "monthrange_ndays y m =
     (if \<not> (1 \<le> m \<and> m \<le> 12) then Inl IllegalMonthError
      else Inr (mdays m + (if m = 2 \<and> isleap y then 1 else 0)))"

definition valid_date :: "date \<Rightarrow> bool" where
  "valid_date d =
     (MINYEAR \<le> year d \<and> year d \<le> MAXYEAR \<and> 1 \<le> month d \<and> month d \<le> 12 \<and>
      1 \<le> day d \<and> day d \<le> mdays (month d) + (if month d = 2 \<and> isleap (year d) then 1 else 0))"

text \<open>The constructor \<^verbatim>\<open>date(y, m, d)\<close> (also reached through \<^verbatim>\<open>replace\<close>).\<close>

definition date_new :: "int \<Rightarrow> int \<Rightarrow> int \<Rightarrow> exn + date" where
  "date_new y m d =
     (if valid_date \<lparr>year = y, month = m, day = d\<rparr>
      then Inr \<lparr>year = y, month = m, day = d\<rparr> else Inl ValueError)"

text \<open>Python compares dates as the tuples \<open>(year, month, day)\<close>.\<close>

definition date_le :: "date \<Rightarrow> date \<Rightarrow> bool" where
  "date_le a b =
     (year a < year b \<or>
      (year a = year b \<and> (month a < month b \<or> (month a = month b \<and> day a \<le> day b))))"

definition date_less :: "date \<Rightarrow> date \<Rightarrow> bool" where
  "date_less a b =
     (year a < year b \<or>
      (year a = year b \<and> (month a < month b \<or> (month a = month b \<and> day a < day b))))"

text \<open>The number of the month counted from year 0: what a calendar step advances.\<close>

definition month_index :: "date \<Rightarrow> int" where
  "month_index d = 12 * year d + month d"

subsection \<open>relativedelta\<close>

text \<open>
  Only the \<^verbatim>\<open>years\<close> and \<^verbatim>\<open>months\<close> fields are used by the application.  Adding a
  relativedelta to a date follows \<^verbatim>\<open>relativedelta.__add__\<close>: the years are added, then
  the months with one carry into the year, the day is clipped to the length of the
  target month, and the date is rebuilt with \<^verbatim>\<open>replace\<close>.  The method asserts that a
  month count other than 0 lies between 1 and 12 in absolute value, which the steps of
  the frequency table do.
\<close>

record relativedelta =
  years :: int
  months :: int

definition radd :: "relativedelta \<Rightarrow> date \<Rightarrow> exn + date" where
  "radd rd dt =
     (let y0 = year dt + years rd;
          m0 = month dt;
          ym = (if months rd \<noteq> 0
                then (let m1 = m0 + months rd
                      in if m1 > 12 then (y0 + 1, m1 - 12)
                         else if m1 < 1 then (y0 - 1, m1 + 12)
                         else (y0, m1))
                else (y0, m0))
      in case monthrange_ndays (fst ym) (snd ym) of
           Inl e \<Rightarrow> Inl e
         | Inr nd \<Rightarrow> date_new (fst ym) (snd ym) (min nd (day dt)))"

section \<open>Floating-point primitives\<close>

text \<open>
  Costs are Python floats.  Their arithmetic is not part of the application, so the
  operations the application uses are parameters of the model: conversion of an integer
  literal, true division, multiplication, comparison, the builtin \<^verbatim>\<open>round(x, n)\<close> and the
  pandas \<^verbatim>\<open>Series.round(n)\<close>.  Every statement below holds for any choice of them.
\<close>

record 'f float_ops =
  fl_of_int :: "int \<Rightarrow> 'f"
  fl_div :: "'f \<Rightarrow> 'f \<Rightarrow> 'f"
  fl_mul :: "'f \<Rightarrow> 'f \<Rightarrow> 'f"
  fl_le :: "'f \<Rightarrow> 'f \<Rightarrow> bool"
  fl_round :: "'f \<Rightarrow> int \<Rightarrow> 'f"
  fl_series_round :: "'f \<Rightarrow> int \<Rightarrow> 'f"

section \<open>The frequency table\<close>

record 'f freq_entry =
  libelle :: string
  facteur :: 'f
  delta :: relativedelta

definition freq_mensuel :: "'f float_ops \<Rightarrow> 'f freq_entry" where
  "freq_mensuel ops =
     \<lparr>libelle = ''Mois'', facteur = fl_of_int ops 1, delta = \<lparr>years = 0, months = 1\<rparr>\<rparr>"

definition freq_trimestriel :: "'f float_ops \<Rightarrow> 'f freq_entry" where
  "freq_trimestriel ops =
     \<lparr>libelle = ''Trimestre'', facteur = fl_div ops (fl_of_int ops 1) (fl_of_int ops 3),
      delta = \<lparr>years = 0, months = 3\<rparr>\<rparr>"

definition freq_annuel :: "'f float_ops \<Rightarrow> 'f freq_entry" where
  "freq_annuel ops =
     \<lparr>libelle = ''Annuel'', facteur = fl_div ops (fl_of_int ops 1) (fl_of_int ops 12),
      delta = \<lparr>years = 1, months = 0\<rparr>\<rparr>"

definition FREQUENCES :: "'f float_ops \<Rightarrow> (string \<times> 'f freq_entry) list" where
  "FREQUENCES ops =
     [(''Mensuel'', freq_mensuel ops),
      (''Trimestriel'', freq_trimestriel ops),
      (''Annuel'', freq_annuel ops)]"

text \<open>
  \<^verbatim>\<open>FREQUENCES.get(freq_key, FREQUENCES["Mensuel"])\<close>.  The key is a cell of the data:
  a string, or \<open>None\<close> for a missing value (NaN or null), which is no key of the table.
\<close>

definition frequences_get :: "'f float_ops \<Rightarrow> string option \<Rightarrow> 'f freq_entry" where
  "frequences_get ops freq_key =
     (case freq_key of
        None \<Rightarrow> freq_mensuel ops
      | Some k \<Rightarrow> (case map_of (FREQUENCES ops) k of
                    None \<Rightarrow> freq_mensuel ops
                  | Some e \<Rightarrow> e))"

section \<open>Parsing and printing dates\<close>

text \<open>
  \<^verbatim>\<open>datetime.strptime(s, "%Y-%m-%d").date()\<close>.  The format is compiled to the regular
  expression \<^verbatim>\<open>(\d\d\d\d)-(1[0-2]|0[1-9]|[1-9])-(3[01]|[12]\d|0[1-9]|[1-9]| [1-9])\<close>, which
  must match at the start of the string and leave nothing over; the alternatives are
  tried from left to right.  The three numbers are then handed to the date constructor.
  Strings are byte strings here, so the digits are the ASCII digits.
\<close>

definition digit_value :: "char \<Rightarrow> int option" where
  "digit_value c = map_of (zip ''0123456789'' [0, 1, 2, 3, 4, 5, 6, 7, 8, 9]) c"

definition is_digit :: "char \<Rightarrow> bool" where
  "is_digit c = (digit_value c \<noteq> None)"

definition is_digit19 :: "char \<Rightarrow> bool" where
  "is_digit19 c = (is_digit c \<and> c \<noteq> CHR ''0'')"

definition dval :: "char \<Rightarrow> int" where
  "dval c = (case digit_value c of Some v \<Rightarrow> v | None \<Rightarrow> 0)"

text \<open>\<^verbatim>\<open>(\d\d\d\d)-\<close>: the year and the rest of the string.\<close>

fun match_year :: "string \<Rightarrow> (int \<times> string) option" where
  "match_year (a # b # c # d # e # rest) =
     (if is_digit a \<and> is_digit b \<and> is_digit c \<and> is_digit d \<and> e = CHR ''-''
      then Some (1000 * dval a + 100 * dval b + 10 * dval c + dval d, rest)
      else None)"
| "match_year _ = None"

text \<open>\<^verbatim>\<open>(1[0-2]|0[1-9]|[1-9])-\<close>: the month and the rest of the string.\<close>

definition match_month :: "string \<Rightarrow> (int \<times> string) option" where
  "match_month s =
     (case s of
        a # b # c # rest \<Rightarrow>
          if a = CHR ''1'' \<and> b \<in> set ''012'' \<and> c = CHR ''-'' then Some (10 + dval b, rest)
          else if a = CHR ''0'' \<and> is_digit19 b \<and> c = CHR ''-'' then Some (dval b, rest)
          else if is_digit19 a \<and> b = CHR ''-'' then Some (dval a, c # rest)
          else None
      | [a, b] \<Rightarrow> if is_digit19 a \<and> b = CHR ''-'' then Some (dval a, []) else None
      | _ \<Rightarrow> None)"

text \<open>
  \<^verbatim>\<open>(3[01]|[12]\d|0[1-9]|[1-9]| [1-9])\<close>: the day and what the match leaves over.
\<close>

definition match_day :: "string \<Rightarrow> (int \<times> string) option" where
  "match_day s =
     (case s of
        a # b # rest \<Rightarrow>
          if a = CHR ''3'' \<and> b \<in> set ''01'' then Some (30 + dval b, rest)
          else if a \<in> set ''12'' \<and> is_digit b then Some (10 * dval a + dval b, rest)
          else if a = CHR ''0'' \<and> is_digit19 b then Some (dval b, rest)
          else if is_digit19 a then Some (dval a, b # rest)
          else if a = CHR '' '' \<and> is_digit19 b then Some (dval b, rest)
          else None
      | [a] \<Rightarrow> if is_digit19 a then Some (dval a, []) else None
      | _ \<Rightarrow> None)"

definition strptime_date :: "string \<Rightarrow> exn + date" where
  "strptime_date s =
     (case match_year s of
        None \<Rightarrow> Inl ValueError
      | Some (y, s1) \<Rightarrow>
          (case match_month s1 of
             None \<Rightarrow> Inl ValueError
           | Some (m, s2) \<Rightarrow>
               (case match_day s2 of
                  None \<Rightarrow> Inl ValueError
                | Some (d, s3) \<Rightarrow> if s3 \<noteq> [] then Inl ValueError else date_new y m d)))"

text \<open>
  \<^verbatim>\<open>d.strftime("%Y-%m-%d")\<close> prints the year in decimal as the C library does (glibc
  does not pad it) and month and day padded with zeros to two characters.
  \<^verbatim>\<open>str(d)\<close> is \<^verbatim>\<open>d.isoformat()\<close>, which pads the year to four characters.
\<close>

definition digit_char :: "nat \<Rightarrow> char" where
  "digit_char n = ''0123456789'' ! (n mod 10)"

fun show_nat :: "nat \<Rightarrow> string" where
  "show_nat n = (if n < 10 then [digit_char n] else show_nat (n div 10) @ [digit_char n])"

declare show_nat.simps [simp del]

definition zfill :: "nat \<Rightarrow> string \<Rightarrow> string" where
  "zfill w s = replicate (w - length s) (CHR ''0'') @ s"

definition strftime_date :: "date \<Rightarrow> string" where
  "strftime_date d =
     show_nat (nat (year d)) @ ''-'' @ zfill 2 (show_nat (nat (month d))) @ ''-'' @
     zfill 2 (show_nat (nat (day d)))"

definition isoformat_date :: "date \<Rightarrow> string" where
  "isoformat_date d =
     zfill 4 (show_nat (nat (year d))) @ ''-'' @ zfill 2 (show_nat (nat (month d))) @ ''-'' @
     zfill 2 (show_nat (nat (day d)))"

section \<open>The renewal projection\<close>

text \<open>
  The loop \<^verbatim>\<open>while d <= today: d += delta\<close> of \<^verbatim>\<open>next_renewal_from\<close>.  It leaves by its
  guard, or by the exception of a step that has no result; \<open>None\<close> stands for a loop
  that never leaves.
\<close>

partial_function (option) renewal_loop :: "relativedelta \<Rightarrow> date \<Rightarrow> date \<Rightarrow> (exn + date) option"
  where
  "renewal_loop dl today d =
     (if date_le d today
      then (case radd dl d of Inl e \<Rightarrow> Some (Inl e) | Inr d' \<Rightarrow> renewal_loop dl today d')
      else Some (Inr d))"

declare renewal_loop.simps [code]

text \<open>
  \<^verbatim>\<open>next_renewal_from(start_str, freq_key)\<close>, with the clock's \<^verbatim>\<open>date.today()\<close> as an
  argument.  The result is \<open>Inr None\<close> for the \<^verbatim>\<open>None\<close> the function returns on a string
  that does not parse, \<open>Inr (Some s)\<close> for a returned string, and \<open>Inl e\<close> for an
  exception that leaves the function: only the parsing is inside \<^verbatim>\<open>try\<close>.
\<close>

definition next_renewal_from ::
  "'f float_ops \<Rightarrow> date \<Rightarrow> string \<Rightarrow> string option \<Rightarrow> (exn + string option) option" where
  "next_renewal_from ops today start_str freq_key =
     (case strptime_date start_str of
        Inl e \<Rightarrow> Some (Inr None)
      | Inr d \<Rightarrow>
          (case renewal_loop (delta (frequences_get ops freq_key)) today d of
             None \<Rightarrow> None
           | Some (Inl e) \<Rightarrow> Some (Inl e)
           | Some (Inr d') \<Rightarrow> Some (Inr (Some (strftime_date d')))))"

text \<open>
  The candidate after \<open>n\<close> calendar steps from a start date: the dates the claims call
  reachable by a whole number of steps.  A step that raises ends the walk.
\<close>

fun calendar_steps :: "nat \<Rightarrow> relativedelta \<Rightarrow> date \<Rightarrow> exn + date" where
  "calendar_steps 0 dl d = Inr d"
| "calendar_steps (Suc n) dl d =
     (case radd dl d of Inl e \<Rightarrow> Inl e | Inr d' \<Rightarrow> calendar_steps n dl d')"

text \<open>The steps of the table: what \<^verbatim>\<open>FREQUENCES\<close> can hand to the loop.\<close>

definition table_delta :: "relativedelta \<Rightarrow> bool" where
  "table_delta dl =
     (dl = \<lparr>years = 0, months = 1\<rparr> \<or> dl = \<lparr>years = 0, months = 3\<rparr> \<or>
      dl = \<lparr>years = 1, months = 0\<rparr>)"

text \<open>
  What the loop has done when it leaves after \<open>n\<close> steps from \<open>d\<close>: every earlier
  candidate was at most \<open>today\<close>, and either the \<open>n\<close>-th candidate is the first one after
  \<open>today\<close> and is returned, or the \<open>n\<close>-th step left the range of dates and its
  \<^verbatim>\<open>ValueError\<close> leaves the loop.
\<close>

definition walk_result :: "relativedelta \<Rightarrow> date \<Rightarrow> date \<Rightarrow> nat \<Rightarrow> bool" where
  "walk_result dl today d n =
     ((\<forall>k<n. \<exists>c. calendar_steps k dl d = Inr c \<and> date_le c today) \<and>
      (case calendar_steps n dl d of
         Inr c \<Rightarrow> date_less today c \<and> renewal_loop dl today d = Some (Inr c)
       | Inl e \<Rightarrow> e = ValueError \<and> MAXYEAR \<le> year today \<and>
                  renewal_loop dl today d = Some (Inl ValueError)))"

section \<open>Stored records and the enriched table\<close>

text \<open>
  The store is a JSON list of dictionaries.  A key of a dictionary is absent, holds
  \<^verbatim>\<open>null\<close>, or holds a value.  The name is taken to be present in every record (the
  application indexes it without a default), and an id, where present, to be an integer.
  A cost \<open>Val c\<close> is a value that \<^verbatim>\<open>pd.to_numeric\<close> reads as the float \<open>c\<close>; \<open>Null\<close> also
  stands for a cost it coerces to NaN.
\<close>

datatype 'a field = Absent | Null | Val 'a

record 'f subscription =
  s_id :: "int option"
  s_name :: string
  s_category :: "string field"
  s_cost :: "'f field"
  s_frequency :: "string field"
  s_start_date :: "string field"
  s_next_renewal :: "string field"
  s_payment_method :: "string field"
  s_notes :: string
  s_status :: "string field"
  s_created_at :: string

text \<open>
  \<^verbatim>\<open>pd.DataFrame(items)\<close> has a column for every key that occurs in some record; a record
  without the key, or with \<^verbatim>\<open>null\<close>, has a missing value in that column.
\<close>

definition has_column :: "('r \<Rightarrow> 'a field) \<Rightarrow> 'r list \<Rightarrow> bool" where
  "has_column f items = list_ex (\<lambda>it. f it \<noteq> Absent) items"

definition cell :: "'a field \<Rightarrow> 'a option" where
  "cell v = (case v of Val x \<Rightarrow> Some x | Null \<Rightarrow> None | Absent \<Rightarrow> None)"

text \<open>
  A row of the enriched table.  \<open>r_id\<close>, \<open>r_frequency\<close>, \<open>r_start_date\<close> and
  \<open>r_payment_method\<close> are \<open>Absent\<close> when the table has no such column, \<open>Null\<close> for a
  missing value (NaN, NaT).  Status and next renewal are columns of every table that
  \<^verbatim>\<open>to_dataframe\<close> returns.  The columns that no operation below reads (notes, creation
  time) are left out.
\<close>

record 'f row =
  r_id :: "int field"
  r_name :: string
  r_category :: string
  r_cost :: 'f
  r_frequency :: "string field"
  r_start_date :: "date field"
  r_next_renewal :: "date option"
  r_payment_method :: "string field"
  r_status :: "string option"
  r_monthly_cost :: 'f
  r_annual_cost :: 'f

definition column_cell :: "('r \<Rightarrow> 'a field) \<Rightarrow> 'r list \<Rightarrow> 'r \<Rightarrow> 'a field" where
  "column_cell f items it =
     (if has_column f items then (case f it of Val x \<Rightarrow> Val x | Null \<Rightarrow> Null | Absent \<Rightarrow> Null)
      else Absent)"

text \<open>
  The default of the next renewal, line by line:
  \<^verbatim>\<open>next_renewal_from(str(r.get("start_date", date.today())), r.get("frequency", "Mensuel"))\<close>.
  \<^verbatim>\<open>str\<close> of a missing value is \<^verbatim>\<open>"None"\<close> or \<^verbatim>\<open>"nan"\<close>.
\<close>

definition row_start_str :: "date \<Rightarrow> 'f subscription list \<Rightarrow> 'f subscription \<Rightarrow> string" where
  "row_start_str today items it =
     (if has_column s_start_date items
      then (case s_start_date it of Val s \<Rightarrow> s | Null \<Rightarrow> ''None'' | Absent \<Rightarrow> ''nan'')
      else isoformat_date today)"

definition row_frequency :: "'f subscription list \<Rightarrow> 'f subscription \<Rightarrow> string option" where
  "row_frequency items it =
     (if has_column s_frequency items then cell (s_frequency it) else Some ''Mensuel'')"

definition default_next_renewal ::
  "'f float_ops \<Rightarrow> date \<Rightarrow> 'f subscription list \<Rightarrow> 'f subscription \<Rightarrow> (exn + string option) option"
  where
  "default_next_renewal ops today items it =
     next_renewal_from ops today (row_start_str today items it) (row_frequency items it)"

text \<open>\<^verbatim>\<open>df.apply(f, axis=1)\<close>: row after row; the first exception leaves the call.\<close>

fun apply_rows :: "('a \<Rightarrow> (exn + 'b) option) \<Rightarrow> 'a list \<Rightarrow> (exn + 'b list) option" where
  "apply_rows f [] = Some (Inr [])"
| "apply_rows f (x # xs) =
     (case f x of
        None \<Rightarrow> None
      | Some (Inl e) \<Rightarrow> Some (Inl e)
      | Some (Inr y) \<Rightarrow>
          (case apply_rows f xs of
             None \<Rightarrow> None
           | Some (Inl e) \<Rightarrow> Some (Inl e)
           | Some (Inr ys) \<Rightarrow> Some (Inr (y # ys))))"

text \<open>
  The column of next renewals as strings, before the conversion to dates: the stored
  values when the table has the column, the projection of every row otherwise.
\<close>

definition next_renewal_column ::
  "'f float_ops \<Rightarrow> date \<Rightarrow> 'f subscription list \<Rightarrow> (exn + string option list) option" where
  "next_renewal_column ops today items =
     (if has_column s_next_renewal items
      then Some (Inr (map (\<lambda>it. cell (s_next_renewal it)) items))
      else apply_rows (default_next_renewal ops today items) items)"

text \<open>
  The two cost columns:
  \<^verbatim>\<open>round(r["cost"] * FREQUENCES.get(r.get("frequency", "Mensuel"), FREQUENCES["Mensuel"])["facteur"], 2)\<close>
  and \<^verbatim>\<open>(df["monthly_cost"] * 12).round(2)\<close>.
\<close>

definition monthly_cost_of :: "'f float_ops \<Rightarrow> 'f \<Rightarrow> string option \<Rightarrow> 'f" where
  "monthly_cost_of ops cost freq_key =
     fl_round ops (fl_mul ops cost (facteur (frequences_get ops freq_key))) 2"

definition annual_cost_of :: "'f float_ops \<Rightarrow> 'f \<Rightarrow> 'f" where
  "annual_cost_of ops monthly = fl_series_round ops (fl_mul ops monthly (fl_of_int ops 12)) 2"

definition non_categorise :: string where
  "non_categorise = ''Non cat'' @ [char_of (195 :: nat), char_of (169 :: nat)] @ ''goris'' @
     [char_of (195 :: nat), char_of (169 :: nat)]"

text \<open>
  \<^verbatim>\<open>to_dataframe(items)\<close>.  The conversion \<^verbatim>\<open>pd.to_datetime(column, errors="coerce").dt.date\<close>
  belongs to pandas and reads a whole column; it is the parameter \<open>to_datetime\<close>, which
  gives the date (or NaT, \<open>None\<close>) at a position of a column of strings.  \<open>today\<close> is
  \<^verbatim>\<open>date.today()\<close>.  Indexing a column that no record has raises \<^verbatim>\<open>KeyError\<close>.
\<close>

definition make_row ::
  "'f float_ops \<Rightarrow> (string option list \<Rightarrow> nat \<Rightarrow> date option) \<Rightarrow> 'f subscription list \<Rightarrow>
   string option list \<Rightarrow> nat \<times> 'f subscription \<Rightarrow> 'f row" where
  "make_row ops to_datetime items nr kit =
     (let k = fst kit; it = snd kit;
          cost = (case s_cost it of Val c \<Rightarrow> c | Null \<Rightarrow> fl_of_int ops 0 | Absent \<Rightarrow> fl_of_int ops 0);
          monthly = monthly_cost_of ops cost (row_frequency items it)
      in \<lparr>r_id =
            (if list_ex (\<lambda>i. s_id i \<noteq> None) items
             then (case s_id it of Some i \<Rightarrow> Val i | None \<Rightarrow> Null)
             else Absent),
          r_name = s_name it,
          r_category = (case s_category it of Val c \<Rightarrow> c | Null \<Rightarrow> non_categorise
                        | Absent \<Rightarrow> non_categorise),
          r_cost = cost,
          r_frequency = column_cell s_frequency items it,
          r_start_date =
            (if has_column s_start_date items
             then (case to_datetime (map (\<lambda>i. cell (s_start_date i)) items) k of
                     Some d \<Rightarrow> Val d | None \<Rightarrow> Null)
             else Absent),
          r_next_renewal = to_datetime nr k,
          r_payment_method = column_cell s_payment_method items it,
          r_status = (if has_column s_status items then cell (s_status it) else Some ''active''),
          r_monthly_cost = monthly,
          r_annual_cost = annual_cost_of ops monthly\<rparr>)"

definition to_dataframe ::
  "'f float_ops \<Rightarrow> (string option list \<Rightarrow> nat \<Rightarrow> date option) \<Rightarrow> date \<Rightarrow>
   'f subscription list \<Rightarrow> (exn + 'f row list) option" where
  "to_dataframe ops to_datetime today items =
     (if items = [] then Some (Inr [])
      else
        (case next_renewal_column ops today items of
           None \<Rightarrow> None
         | Some (Inl e) \<Rightarrow> Some (Inl e)
         | Some (Inr nr) \<Rightarrow>
             if \<not> has_column s_category items then Some (Inl KeyError)
             else if \<not> has_column s_cost items then Some (Inl KeyError)
             else Some (Inr (map (make_row ops to_datetime items nr) (enumerate 0 items)))))"

section \<open>The dashboard queries\<close>

text \<open>
  \<^verbatim>\<open>date.toordinal()\<close>, as \<^verbatim>\<open>datetime.py\<close> computes it: the days before the year, the days
  before the month (the lengths of the months before it, and the leap day after
  February), and the day.
\<close>

definition days_before_year :: "int \<Rightarrow> int" where
  "days_before_year y = (y - 1) * 365 + (y - 1) div 4 - (y - 1) div 100 + (y - 1) div 400"

definition days_before_month :: "int \<Rightarrow> int \<Rightarrow> int" where
  "days_before_month y m = sum_list (map mdays [1..m - 1]) + (if m > 2 \<and> isleap y then 1 else 0)"

definition toordinal :: "date \<Rightarrow> int" where
  "toordinal d = days_before_year (year d) + days_before_month (year d) (month d) + day d"

text \<open>
  A pandas timestamp counts nanoseconds; \<^verbatim>\<open>pd.Timestamp.today()\<close> is the clock's date and
  the nanoseconds since its midnight, the timestamp of a date is its midnight.  The
  64 bits in which pandas holds the count (years 1677 to 2262) are not modelled.
\<close>

definition NS_PER_DAY :: int where
  "NS_PER_DAY = 86400 * 1000000000"

record timestamp =
  ts_date :: date
  ts_ns :: int

definition timestamp_value :: "timestamp \<Rightarrow> int" where
  "timestamp_value t = toordinal (ts_date t) * NS_PER_DAY + ts_ns t"

definition df_active :: "'f row list \<Rightarrow> 'f row list" where
  "df_active df = filter (\<lambda>r. r_status r = Some ''active'') df"

definition df_resilie :: "'f row list \<Rightarrow> 'f row list" where
  "df_resilie df = filter (\<lambda>r. r_status r = Some ''cancelled'') df"

text \<open>
  \<^verbatim>\<open>renew_soon = df_active[pd.to_datetime(df_active["next_renewal"]) <= now + pd.Timedelta(days=7)]\<close>.
  A comparison with NaT is false.
\<close>

definition renew_soon :: "timestamp \<Rightarrow> 'f row list \<Rightarrow> 'f row list" where
  "renew_soon now df =
     filter (\<lambda>r. case r_next_renewal r of
                   None \<Rightarrow> False
                 | Some d \<Rightarrow> timestamp_value \<lparr>ts_date = d, ts_ns = 0\<rparr>
                             \<le> timestamp_value now + 7 * NS_PER_DAY)
       (df_active df)"




section \<open>The actions of the list tab\<close>









section \<open>The form that adds a subscription\<close>

text \<open>
  The values of the form when it is submitted: name, category and payment method after
  the choice between the list and the free text, the cost of the number input, the
  frequency of the select box, the date of the date input.
\<close>

record 'f form =
  f_name :: string
  f_category :: string
  f_cost :: 'f
  f_frequency :: string
  f_start_date :: date
  f_payment_method :: string
  f_notes :: string

datatype notice = Error_notice | Success_notice

text \<open>\<^verbatim>\<open>max([s.get("id", 0) for s in subs] + [0]) + 1\<close>.\<close>

definition new_id :: "'f subscription list \<Rightarrow> int" where
  "new_id subs = fold max (map (\<lambda>s. case s_id s of Some i \<Rightarrow> i | None \<Rightarrow> 0) subs) 0 + 1"

text \<open>
  The body of \<^verbatim>\<open>if submit:\<close>.  The arguments are the clock (\<open>today\<close> for the projection,
  \<open>now_str\<close> the formatted creation time), the form and the stored collection; the
  result is the notice shown and the collection that the store holds afterwards.
\<close>

definition submit_add_sub ::
  "'f float_ops \<Rightarrow> date \<Rightarrow> string \<Rightarrow> 'f form \<Rightarrow> 'f subscription list \<Rightarrow>
   (exn + notice \<times> 'f subscription list) option" where
  "submit_add_sub ops today now_str fm stored =
     (if f_name fm = [] \<or> f_category fm = [] \<or> fl_le ops (f_cost fm) (fl_of_int ops 0)
      then Some (Inr (Error_notice, stored))
      else
        (case next_renewal_from ops today (strftime_date (f_start_date fm))
                (Some (f_frequency fm)) of
           None \<Rightarrow> None
         | Some (Inl e) \<Rightarrow> Some (Inl e)
         | Some (Inr next_ren) \<Rightarrow>
             Some (Inr (Success_notice,
               stored @
               [\<lparr>s_id = Some (new_id stored),
                 s_name = f_name fm,
                 s_category = Val (f_category fm),
                 s_cost = Val (f_cost fm),
                 s_frequency = Val (f_frequency fm),
                 s_start_date = Val (strftime_date (f_start_date fm)),
                 s_next_renewal = (case next_ren of Some s \<Rightarrow> Val s | None \<Rightarrow> Null),
                 s_payment_method = Val (f_payment_method fm),
                 s_notes = f_notes fm,
                 s_status = Val ''active'',
                 s_created_at = now_str\<rparr>]))))"

section \<open>Concrete values for the examples\<close>

text \<open>
  An instance of the float primitives over the rationals, with rounding to the nearest
  multiple of \<open>10\<^sup>-\<^sup>n\<close>, and an instance of the date conversion that reads ISO dates.
\<close>

definition round_rat :: "rat \<Rightarrow> int \<Rightarrow> rat" where
  "round_rat x n = of_int (round (x * 10 ^ nat n)) / 10 ^ nat n"

definition rat_ops :: "rat float_ops" where
  "rat_ops =
     \<lparr>fl_of_int = of_int, fl_div = (/), fl_mul = (*), fl_le = (\<le>),
      fl_round = round_rat, fl_series_round = round_rat\<rparr>"

definition iso_to_datetime :: "string option list \<Rightarrow> nat \<Rightarrow> date option" where
  "iso_to_datetime col k =
     (if k < length col
      then (case col ! k of
              None \<Rightarrow> None
            | Some s \<Rightarrow> (case strptime_date s of Inr d \<Rightarrow> Some d | Inl e \<Rightarrow> None))
      else None)"

definition example_sub :: "rat subscription" where
  "example_sub =
     \<lparr>s_id = Some 1, s_name = ''Netflix'', s_category = Val ''Divertissement'',
      s_cost = Val (1599 / 100), s_frequency = Val ''Mensuel'', s_start_date = Val ''2020-01-15'',
      s_next_renewal = Val ''2020-02-15'', s_payment_method = Val ''PayPal'', s_notes = [],
      s_status = Val ''active'', s_created_at = ''2020-01-15 10:00:00''\<rparr>"

text \<open>The row that \<^verbatim>\<open>to_dataframe\<close> makes of the example record.\<close>

definition example_row :: "rat row" where
  "example_row =
     \<lparr>r_id = Val 1, r_name = ''Netflix'', r_category = ''Divertissement'', r_cost = 1599 / 100,
      r_frequency = Val ''Mensuel'', r_start_date = Val \<lparr>year = 2020, month = 1, day = 15\<rparr>,
      r_next_renewal = Some \<lparr>year = 2020, month = 2, day = 15\<rparr>,
      r_payment_method = Val ''PayPal'', r_status = Some ''active'',
      r_monthly_cost = 1599 / 100, r_annual_cost = 4797 / 25\<rparr>"


text \<open>A form with the cost 0, and a second, cancelled record with its row.\<close>

definition example_form :: "rat form" where
  "example_form =
     \<lparr>f_name = ''Spotify'', f_category = ''Musique'', f_cost = 0, f_frequency = ''Mensuel'',
      f_start_date = \<lparr>year = 2024, month = 3, day = 1\<rparr>, f_payment_method = ''PayPal'',
      f_notes = []\<rparr>"






section \<open>Properties of the calendar\<close>

lemma date_new_valid: "date_new y m d = Inr x \<Longrightarrow> valid_date x"
  by (auto simp: date_new_def split: if_splits)

lemma radd_valid: "radd dl d = Inr d' \<Longrightarrow> valid_date d'"
  by (auto simp: radd_def Let_def dest: date_new_valid split: sum.splits)

lemma strptime_date_valid: "strptime_date s = Inr d \<Longrightarrow> valid_date d"
  by (auto simp: strptime_date_def dest: date_new_valid split: option.splits prod.splits if_splits)

lemma radd_month_index:
  "radd dl d = Inr d' \<Longrightarrow> month_index d' = month_index d + 12 * years dl + months dl"
  by (auto simp: radd_def Let_def month_index_def date_new_def split: sum.splits if_splits)

lemma date_le_total: "\<not> date_le a b \<Longrightarrow> date_less b a"
  by (auto simp: date_le_def date_less_def)

lemma date_less_not_le: "date_less b a \<Longrightarrow> \<not> date_le a b"
  by (auto simp: date_le_def date_less_def)


lemma frequences_get_delta:
  "delta (frequences_get ops fk) = \<lparr>years = 0, months = 1\<rparr> \<or>
   delta (frequences_get ops fk) = \<lparr>years = 0, months = 3\<rparr> \<or>
   delta (frequences_get ops fk) = \<lparr>years = 1, months = 0\<rparr>"
  by (auto simp: frequences_get_def FREQUENCES_def freq_mensuel_def freq_trimestriel_def
      freq_annuel_def split: option.splits if_splits)

lemma radd_table_shape:
  assumes "1 \<le> month d" "month d \<le> 12" "table_delta dl"
  shows "\<exists>y m. year d \<le> y \<and> y \<le> year d + 1 \<and> 1 \<le> m \<and> m \<le> 12 \<and>
           radd dl d = date_new y m (min (mdays m + (if m = 2 \<and> isleap y then 1 else 0)) (day d))"
proof -
  consider "dl = \<lparr>years = 0, months = 1\<rparr>" | "dl = \<lparr>years = 0, months = 3\<rparr>"
    | "dl = \<lparr>years = 1, months = 0\<rparr>"
    using assms(3) by (auto simp: table_delta_def)
  then show ?thesis
  proof cases
    case 1
    show ?thesis
    proof (cases "month d + 1 > 12")
      case True
      with assms(1,2) 1 have
        "radd dl d = date_new (year d + 1) (month d + 1 - 12)
           (min (mdays (month d + 1 - 12) + (if month d + 1 - 12 = 2 \<and> isleap (year d + 1) then 1 else 0)) (day d))"
        by (simp add: radd_def monthrange_ndays_def Let_def)
      with True assms(1,2) show ?thesis by (intro exI [of _ "year d + 1"] exI [of _ "month d + 1 - 12"]) simp
    next
      case False
      with assms(1,2) 1 have
        "radd dl d = date_new (year d) (month d + 1)
           (min (mdays (month d + 1) + (if month d + 1 = 2 \<and> isleap (year d) then 1 else 0)) (day d))"
        by (simp add: radd_def monthrange_ndays_def Let_def)
      with False assms(1,2) show ?thesis by (intro exI [of _ "year d"] exI [of _ "month d + 1"]) simp
    qed
  next
    case 2
    show ?thesis
    proof (cases "month d + 3 > 12")
      case True
      with assms(1,2) 2 have
        "radd dl d = date_new (year d + 1) (month d + 3 - 12)
           (min (mdays (month d + 3 - 12) + (if month d + 3 - 12 = 2 \<and> isleap (year d + 1) then 1 else 0)) (day d))"
        by (simp add: radd_def monthrange_ndays_def Let_def)
      with True assms(1,2) show ?thesis by (intro exI [of _ "year d + 1"] exI [of _ "month d + 3 - 12"]) simp
    next
      case False
      with assms(1,2) 2 have
        "radd dl d = date_new (year d) (month d + 3)
           (min (mdays (month d + 3) + (if month d + 3 = 2 \<and> isleap (year d) then 1 else 0)) (day d))"
        by (simp add: radd_def monthrange_ndays_def Let_def)
      with False assms(1,2) show ?thesis by (intro exI [of _ "year d"] exI [of _ "month d + 3"]) simp
    qed
  next
    case 3
    with assms(1,2) have
      "radd dl d = date_new (year d + 1) (month d)
         (min (mdays (month d) + (if month d = 2 \<and> isleap (year d + 1) then 1 else 0)) (day d))"
      by (simp add: radd_def monthrange_ndays_def Let_def)
    with assms(1,2) show ?thesis by (intro exI [of _ "year d + 1"] exI [of _ "month d"]) simp
  qed
qed

lemma mdays_ge: "28 \<le> mdays m"
  by (simp add: mdays_def)

lemma date_new_fails:
  assumes "MINYEAR \<le> y" "1 \<le> m" "m \<le> 12" "1 \<le> dd"
    and "date_new y m (min (mdays m + (if m = 2 \<and> isleap y then 1 else 0)) dd) = Inl e"
  shows "e = ValueError \<and> MAXYEAR < y"
proof -
  have "1 \<le> min (mdays m + (if m = 2 \<and> isleap y then 1 else 0)) dd"
    using assms(4) by (simp add: mdays_def)
  with assms show ?thesis
    by (simp add: date_new_def valid_date_def split: if_splits)
qed

lemma radd_fails:
  assumes "valid_date d" "table_delta dl" "radd dl d = Inl e"
  shows "e = ValueError \<and> MAXYEAR \<le> year d"
proof -
  from assms(1) have v: "MINYEAR \<le> year d" "1 \<le> month d" "month d \<le> 12" "1 \<le> day d"
    by (simp_all add: valid_date_def)
  from radd_table_shape [OF v(2,3) assms(2)] obtain y m where
    ym: "year d \<le> y" "y \<le> year d + 1" "1 \<le> m" "m \<le> 12"
    and r: "radd dl d = date_new y m (min (mdays m + (if m = 2 \<and> isleap y then 1 else 0)) (day d))"
    by blast
  from v(1) ym(1) have y1: "MINYEAR \<le> y" by simp
  from r assms(3) have
    "date_new y m (min (mdays m + (if m = 2 \<and> isleap y then 1 else 0)) (day d)) = Inl e"
    by simp
  with y1 ym(3,4) v(4) have "e = ValueError \<and> MAXYEAR < y"
    by (rule date_new_fails)
  with ym(2) show ?thesis by simp
qed

section \<open>Properties of the renewal loop\<close>

lemma table_delta_step: "table_delta dl \<Longrightarrow> 1 \<le> 12 * years dl + months dl"
  by (auto simp: table_delta_def)

lemma walk_result_stop: "\<not> date_le d today \<Longrightarrow> walk_result dl today d 0"
  by (simp add: walk_result_def renewal_loop.simps date_le_total)

lemma walk_result_raise:
  assumes "valid_date d" "table_delta dl" "date_le d today" "radd dl d = Inl e"
  shows "walk_result dl today d (Suc 0)"
proof -
  from radd_fails [OF assms(1,2,4)] have e: "e = ValueError" and y: "MAXYEAR \<le> year d"
    by simp_all
  from assms(3) have "year d \<le> year today" by (auto simp: date_le_def)
  with y have "MAXYEAR \<le> year today" by simp
  with assms(3,4) e show ?thesis
    by (simp add: walk_result_def renewal_loop.simps [of dl today d])
qed

lemma walk_result_step:
  assumes "date_le d today" "radd dl d = Inr d'" "walk_result dl today d' n"
  shows "walk_result dl today d (Suc n)"
proof -
  have loop: "renewal_loop dl today d = renewal_loop dl today d'"
    using assms(1,2) by (simp add: renewal_loop.simps [of dl today d])
  have pre: "\<exists>c. calendar_steps k dl d = Inr c \<and> date_le c today" if "k < Suc n" for k
  proof (cases k)
    case 0
    with assms(1) show ?thesis by simp
  next
    case (Suc j)
    with that have "j < n" by simp
    with assms(3) obtain c where "calendar_steps j dl d' = Inr c" "date_le c today"
      by (auto simp: walk_result_def)
    with Suc assms(2) show ?thesis by simp
  qed
  from assms(3) have
    "case calendar_steps n dl d' of
       Inr c \<Rightarrow> date_less today c \<and> renewal_loop dl today d' = Some (Inr c)
     | Inl e \<Rightarrow> e = ValueError \<and> MAXYEAR \<le> year today \<and>
                renewal_loop dl today d' = Some (Inl ValueError)"
    by (simp add: walk_result_def)
  with assms(2) pre show ?thesis
    unfolding walk_result_def loop by (simp split: sum.splits)
qed

lemma renewal_loop_walk:
  assumes "table_delta dl"
  shows "valid_date d \<Longrightarrow> \<exists>n. walk_result dl today d n"
proof (induction "nat (12 * MAXYEAR + 12 - month_index d)" arbitrary: d rule: less_induct)
  case less
  show ?case
  proof (cases "date_le d today")
    case False
    then show ?thesis using walk_result_stop by blast
  next
    case True
    show ?thesis
    proof (cases "radd dl d")
      case (Inl e)
      with less.prems assms True show ?thesis using walk_result_raise by blast
    next
      case (Inr d')
      then have v': "valid_date d'" by (rule radd_valid)
      from Inr have "month_index d' = month_index d + 12 * years dl + months dl"
        by (rule radd_month_index)
      with table_delta_step [OF assms] have up: "month_index d < month_index d'" by simp
      from v' have "month_index d' \<le> 12 * MAXYEAR + 12"
        by (simp add: valid_date_def month_index_def)
      with up have "nat (12 * MAXYEAR + 12 - month_index d') < nat (12 * MAXYEAR + 12 - month_index d)"
        by simp
      from less.hyps [OF this v'] obtain n where "walk_result dl today d' n" ..
      with True Inr have "walk_result dl today d (Suc n)" by (rule walk_result_step)
      then show ?thesis ..
    qed
  qed
qed

section \<open>The renewal projection: claims C1, C4 and C10\<close>

lemmas eval_defs =
  strptime_date_def match_month_def match_day_def is_digit_def is_digit19_def digit_value_def
  dval_def date_new_def valid_date_def MINYEAR_def MAXYEAR_def mdays_def isleap_def
  frequences_get_def FREQUENCES_def freq_mensuel_def freq_trimestriel_def freq_annuel_def
  date_le_def date_less_def radd_def monthrange_ndays_def strftime_date_def zfill_def
  show_nat.simps digit_char_def next_renewal_from_def renewal_loop.simps

lemma frequences_get_table: "table_delta (delta (frequences_get ops fk))"
  using frequences_get_delta [of ops fk] by (simp add: table_delta_def)


text \<open>
  The projection run on two records: started on 2024-01-15 and billed monthly, started on
  2023-06-01 and billed yearly, both read on 2024-03-10.
\<close>

lemma next_renewal_from_examples:
  "next_renewal_from rat_ops \<lparr>year = 2024, month = 3, day = 10\<rparr> ''2024-01-15''
     (Some ''Mensuel'') = Some (Inr (Some ''2024-03-15''))"
  "next_renewal_from rat_ops \<lparr>year = 2024, month = 3, day = 10\<rparr> ''2023-06-01''
     (Some ''Annuel'') = Some (Inr (Some ''2024-06-01''))"
  by (simp_all add: eval_defs)

text \<open>
  Claim C1, as amended.  For every start date that parses, every frequency key (known,
  unknown or missing) and every \<open>today\<close>, there is a number \<open>n\<close> of calendar steps such
  that every candidate before the \<open>n\<close>-th is at most \<open>today\<close>, and
  \<^item> either the \<open>n\<close>-th candidate exists, is strictly after \<open>today\<close>, and is what
    \<^verbatim>\<open>next_renewal_from\<close> returns (formatted): the first date after \<open>today\<close> on the walk,
    reached from the start date by \<open>n \<ge> 0\<close> whole steps;
  \<^item> or the \<open>n\<close>-th step leaves the range of dates, which needs \<open>today\<close> in the last
    year 9999, and \<^verbatim>\<open>next_renewal_from\<close> raises \<^verbatim>\<open>ValueError\<close> instead of returning.
  The claim as stated promises a returned date for every \<open>today\<close>; the second case is the
  amendment.
\<close>

theorem next_renewal_from_projection:
  assumes "strptime_date start_str = Inr d0"
  shows "\<exists>n. (\<forall>k<n. \<exists>c. calendar_steps k (delta (frequences_get ops fk)) d0 = Inr c \<and>
                       date_le c today) \<and>
           (case calendar_steps n (delta (frequences_get ops fk)) d0 of
              Inr d \<Rightarrow> date_less today d \<and>
                next_renewal_from ops today start_str fk = Some (Inr (Some (strftime_date d)))
            | Inl e \<Rightarrow> MAXYEAR \<le> year today \<and>
                next_renewal_from ops today start_str fk = Some (Inl ValueError))"
proof -
  from assms have "valid_date d0" by (rule strptime_date_valid)
  with frequences_get_table obtain n where
    w: "walk_result (delta (frequences_get ops fk)) today d0 n"
    using renewal_loop_walk by blast
  show ?thesis
  proof (intro exI [of _ n] conjI)
    from w show "\<forall>k<n. \<exists>c. calendar_steps k (delta (frequences_get ops fk)) d0 = Inr c \<and>
                          date_le c today"
      by (simp add: walk_result_def)
  next
    from w assms show "case calendar_steps n (delta (frequences_get ops fk)) d0 of
              Inr d \<Rightarrow> date_less today d \<and>
                next_renewal_from ops today start_str fk = Some (Inr (Some (strftime_date d)))
            | Inl e \<Rightarrow> MAXYEAR \<le> year today \<and>
                next_renewal_from ops today start_str fk = Some (Inl ValueError)"
      by (auto simp: walk_result_def next_renewal_from_def split: sum.splits)
  qed
qed

text \<open>The theorem at the start date 2024-01-15, monthly, with the clock at 2024-03-10.\<close>

theorem next_renewal_from_projection_witness:
  "strptime_date ''2024-01-15'' = Inr \<lparr>year = 2024, month = 1, day = 15\<rparr> \<and>
   (\<exists>n. (\<forall>k<n. \<exists>c. calendar_steps k (delta (frequences_get rat_ops (Some ''Mensuel'')))
                    \<lparr>year = 2024, month = 1, day = 15\<rparr> = Inr c \<and>
                  date_le c \<lparr>year = 2024, month = 3, day = 10\<rparr>) \<and>
        (case calendar_steps n (delta (frequences_get rat_ops (Some ''Mensuel'')))
                \<lparr>year = 2024, month = 1, day = 15\<rparr> of
           Inr d \<Rightarrow> date_less \<lparr>year = 2024, month = 3, day = 10\<rparr> d \<and>
             next_renewal_from rat_ops \<lparr>year = 2024, month = 3, day = 10\<rparr> ''2024-01-15''
               (Some ''Mensuel'') = Some (Inr (Some (strftime_date d)))
         | Inl e \<Rightarrow> MAXYEAR \<le> year \<lparr>year = 2024, month = 3, day = 10\<rparr> \<and>
             next_renewal_from rat_ops \<lparr>year = 2024, month = 3, day = 10\<rparr> ''2024-01-15''
               (Some ''Mensuel'') = Some (Inl ValueError)))"
proof -
  have h: "strptime_date ''2024-01-15'' = Inr \<lparr>year = 2024, month = 1, day = 15\<rparr>"
    by (simp add: eval_defs)
  from next_renewal_from_projection
    [OF h, of rat_ops "Some ''Mensuel''" "\<lparr>year = 2024, month = 3, day = 10\<rparr>"] h
  show ?thesis by blast
qed

text \<open>
  The claim as stated fails on the last day a date can hold: the start date 9999-12-01
  parses, it is not after the 9999-12-31 of the clock, and the step to the next month
  raises.
\<close>

theorem next_renewal_from_last_year_raises:
  "next_renewal_from rat_ops \<lparr>year = 9999, month = 12, day = 31\<rparr> ''9999-12-01''
     (Some ''Mensuel'') = Some (Inl ValueError)"
  by (simp add: eval_defs)

text \<open>
  Claim C4.  For a start date that does not parse as \<^verbatim>\<open>%Y-%m-%d\<close>, the projection
  gives the error result \<^verbatim>\<open>None\<close> (here \<open>Inr None\<close>), which no caller can take for a
  date: a returned date is \<open>Inr (Some s)\<close>.
\<close>

theorem next_renewal_from_unparsable:
  assumes "strptime_date start_str = Inl e"
  shows "next_renewal_from ops today start_str fk = Some (Inr None)"
  using assms by (simp add: next_renewal_from_def)

theorem next_renewal_from_unparsable_witness:
  "strptime_date ''15/01/2024'' = Inl ValueError \<and>
   next_renewal_from rat_ops \<lparr>year = 2024, month = 3, day = 10\<rparr> ''15/01/2024''
     (Some ''Mensuel'') = Some (Inr None)"
proof -
  have h: "strptime_date ''15/01/2024'' = Inl ValueError"
    by (simp add: eval_defs)
  from next_renewal_from_unparsable [OF h] h show ?thesis by blast
qed



section \<open>The enriched table: claims C2, C8 and C3\<close>

lemma nth_enumerate0: "k < length xs \<Longrightarrow> enumerate 0 xs ! k = (k, xs ! k)"
  by (simp add: nth_enumerate_eq)

lemma to_dataframe_rows:
  assumes "to_dataframe ops tdt today items = Some (Inr df)"
  shows "length df = length items \<and>
         (items \<noteq> [] \<longrightarrow>
            (\<exists>nr. next_renewal_column ops today items = Some (Inr nr) \<and>
                  (\<forall>k<length items. df ! k = make_row ops tdt items nr (k, items ! k))))"
proof (cases "items = []")
  case True
  with assms show ?thesis by (simp add: to_dataframe_def)
next
  case False
  with assms obtain nr where nr: "next_renewal_column ops today items = Some (Inr nr)"
    and df: "df = map (make_row ops tdt items nr) (enumerate 0 items)"
    by (auto simp: to_dataframe_def split: option.splits sum.splits if_splits)
  from df have "length df = length items" by simp
  moreover from df have "\<forall>k<length items. df ! k = make_row ops tdt items nr (k, items ! k)"
    by (simp add: nth_enumerate0)
  ultimately show ?thesis using nr by blast
qed

lemma to_dataframe_costs:
  assumes "to_dataframe ops tdt today items = Some (Inr df)" "k < length items"
  shows "r_monthly_cost (df ! k) = monthly_cost_of ops (r_cost (df ! k)) (row_frequency items (items ! k))"
    and "r_annual_cost (df ! k) = annual_cost_of ops (r_monthly_cost (df ! k))"
    and "r_cost (df ! k) = (case s_cost (items ! k) of Val c \<Rightarrow> c | Null \<Rightarrow> fl_of_int ops 0
                            | Absent \<Rightarrow> fl_of_int ops 0)"
proof -
  from assms(2) have ne: "items \<noteq> []" by auto
  with to_dataframe_rows [OF assms(1)] assms(2) obtain nr where
    row: "df ! k = make_row ops tdt items nr (k, items ! k)" by blast
  show "r_monthly_cost (df ! k) = monthly_cost_of ops (r_cost (df ! k)) (row_frequency items (items ! k))"
    by (simp add: row make_row_def Let_def)
  show "r_annual_cost (df ! k) = annual_cost_of ops (r_monthly_cost (df ! k))"
    by (simp add: row make_row_def Let_def)
  show "r_cost (df ! k) = (case s_cost (items ! k) of Val c \<Rightarrow> c | Null \<Rightarrow> fl_of_int ops 0
                            | Absent \<Rightarrow> fl_of_int ops 0)"
    by (simp add: row make_row_def Let_def)
qed

lemma has_column_nth: "k < length items \<Longrightarrow> f (items ! k) \<noteq> Absent \<Longrightarrow> has_column f items"
  by (auto simp: has_column_def list_ex_iff)

lemma frequences_get_known:
  "frequences_get ops (Some ''Mensuel'') = freq_mensuel ops"
  "frequences_get ops (Some ''Trimestriel'') = freq_trimestriel ops"
  "frequences_get ops (Some ''Annuel'') = freq_annuel ops"
  by (simp_all add: frequences_get_def FREQUENCES_def)


lemma apply_rows_Inr:
  "apply_rows f xs = Some (Inr ys) \<Longrightarrow>
   length ys = length xs \<and> (\<forall>j<length xs. f (xs ! j) = Some (Inr (ys ! j)))"
proof (induction xs arbitrary: ys)
  case Nil
  then show ?case by simp
next
  case (Cons x xs)
  from Cons.prems obtain y ys' where y: "f x = Some (Inr y)"
    and ys': "apply_rows f xs = Some (Inr ys')" and ys: "ys = y # ys'"
    by (auto split: option.splits sum.splits)
  from Cons.IH [OF ys'] have len: "length ys' = length xs"
    and all: "\<forall>j<length xs. f (xs ! j) = Some (Inr (ys' ! j))" by simp_all
  have "f ((x # xs) ! j) = Some (Inr (ys ! j))" if "j < length (x # xs)" for j
    using that y all ys by (cases j) simp_all
  with len ys show ?case by simp
qed

lemma round_rat_examples:
  "round_rat (1599 / 100) 2 = 1599 / 100"
  "round_rat (4797 / 25) 2 = 4797 / 25"
  by code_simp+

lemma to_dataframe_example:
  "to_dataframe rat_ops iso_to_datetime \<lparr>year = 2024, month = 3, day = 10\<rparr> [example_sub]
     = Some (Inr [example_row])"
  by (simp add: to_dataframe_def next_renewal_column_def has_column_def example_sub_def
      example_row_def make_row_def enumerate_eq_zip cell_def column_cell_def row_frequency_def
      monthly_cost_of_def annual_cost_of_def rat_ops_def Let_def iso_to_datetime_def round_rat_examples
      eval_defs)


text \<open>
  Claim C2.  For every record of the loaded data whose cost is a number \<open>c\<close> and whose
  frequency \<open>f\<close> is one of Mensuel (monthly), Trimestriel (quarterly) and Annuel
  (annual), the enriched row has \<open>monthly_cost = round(c * factor(f), 2)\<close> with the factors
  1.0, 1/3 and 1/12 of the table, and \<open>annual_cost = round(monthly_cost * 12, 2)\<close>: the
  rounding to two decimals is applied at each derived step.  This holds for every cost,
  in particular for every cost \<open>\<ge> 0\<close>, and for any float arithmetic.
\<close>

theorem normalize_costs:
  assumes "to_dataframe ops tdt today items = Some (Inr df)" and "k < length items"
    and "s_cost (items ! k) = Val c" and "s_frequency (items ! k) = Val f"
    and "f \<in> {''Mensuel'', ''Trimestriel'', ''Annuel''}"
  shows "r_monthly_cost (df ! k) =
           fl_round ops (fl_mul ops c
             (if f = ''Mensuel'' then fl_of_int ops 1
              else if f = ''Trimestriel'' then fl_div ops (fl_of_int ops 1) (fl_of_int ops 3)
              else fl_div ops (fl_of_int ops 1) (fl_of_int ops 12))) 2 \<and>
         r_annual_cost (df ! k) =
           fl_series_round ops (fl_mul ops (r_monthly_cost (df ! k)) (fl_of_int ops 12)) 2"
proof -
  from assms(2,4) have "has_column s_frequency items" by (simp add: has_column_nth)
  with assms(4) have rf: "row_frequency items (items ! k) = Some f"
    by (simp add: row_frequency_def cell_def)
  from to_dataframe_costs(3) [OF assms(1,2)] assms(3) have c: "r_cost (df ! k) = c" by simp
  have fac: "facteur (frequences_get ops (Some f)) =
      (if f = ''Mensuel'' then fl_of_int ops 1
       else if f = ''Trimestriel'' then fl_div ops (fl_of_int ops 1) (fl_of_int ops 3)
       else fl_div ops (fl_of_int ops 1) (fl_of_int ops 12))"
    using assms(5)
    by (auto simp: frequences_get_known freq_mensuel_def freq_trimestriel_def freq_annuel_def)
  from to_dataframe_costs(1) [OF assms(1,2)] rf c fac
  have "r_monthly_cost (df ! k) =
           fl_round ops (fl_mul ops c
             (if f = ''Mensuel'' then fl_of_int ops 1
              else if f = ''Trimestriel'' then fl_div ops (fl_of_int ops 1) (fl_of_int ops 3)
              else fl_div ops (fl_of_int ops 1) (fl_of_int ops 12))) 2"
    by (simp add: monthly_cost_of_def)
  moreover from to_dataframe_costs(2) [OF assms(1,2)]
  have "r_annual_cost (df ! k) =
           fl_series_round ops (fl_mul ops (r_monthly_cost (df ! k)) (fl_of_int ops 12)) 2"
    by (simp add: annual_cost_of_def)
  ultimately show ?thesis by simp
qed

text \<open>The theorem at the example record: 15.99 a month gives 15.99 and 191.88.\<close>

theorem normalize_costs_witness:
  "to_dataframe rat_ops iso_to_datetime \<lparr>year = 2024, month = 3, day = 10\<rparr> [example_sub]
     = Some (Inr [example_row]) \<and>
   r_monthly_cost example_row = round_rat (1599 / 100 * 1) 2 \<and>
   r_annual_cost example_row = round_rat (r_monthly_cost example_row * 12) 2"
  using normalize_costs [OF to_dataframe_example, of 0 "1599 / 100" "''Mensuel''"] to_dataframe_example
  by (simp add: example_sub_def rat_ops_def)



text \<open>
  Claim C3, as amended.  In the table made from loaded data, the next renewal of a
  record is recomputed only when no record of the data carries the key
  \<^verbatim>\<open>next_renewal\<close>: it is then the date conversion of the fresh projection of each
  record.  When some record carries the key, the next renewal of every record is the
  date conversion of the stored value (NaT for a record without one); nothing is
  projected.
\<close>

theorem next_renewal_persisted_or_projected:
  assumes "to_dataframe ops tdt today items = Some (Inr df)" and "k < length items"
  shows "(has_column s_next_renewal items \<longrightarrow>
            r_next_renewal (df ! k) = tdt (map (\<lambda>it. cell (s_next_renewal it)) items) k) \<and>
         (\<not> has_column s_next_renewal items \<longrightarrow>
            (\<exists>nr. length nr = length items \<and>
               (\<forall>j<length items.
                  next_renewal_from ops today (row_start_str today items (items ! j))
                    (row_frequency items (items ! j)) = Some (Inr (nr ! j))) \<and>
               r_next_renewal (df ! k) = tdt nr k))"
proof -
  from assms(2) have ne: "items \<noteq> []" by auto
  with to_dataframe_rows [OF assms(1)] assms(2) obtain nr where
    nr: "next_renewal_column ops today items = Some (Inr nr)"
    and row: "df ! k = make_row ops tdt items nr (k, items ! k)" by blast
  from row have r: "r_next_renewal (df ! k) = tdt nr k"
    by (simp add: make_row_def Let_def)
  show ?thesis
  proof (cases "has_column s_next_renewal items")
    case True
    with nr have "nr = map (\<lambda>it. cell (s_next_renewal it)) items"
      by (simp add: next_renewal_column_def)
    with r True show ?thesis by simp
  next
    case False
    with nr have "apply_rows (default_next_renewal ops today items) items = Some (Inr nr)"
      by (simp add: next_renewal_column_def)
    from apply_rows_Inr [OF this] have "length nr = length items"
      and "\<forall>j<length items. default_next_renewal ops today items (items ! j) = Some (Inr (nr ! j))"
      by simp_all
    with r False show ?thesis
      unfolding default_next_renewal_def by blast
  qed
qed

text \<open>The theorem at the example record, which stores its next renewal.\<close>

theorem next_renewal_persisted_or_projected_witness:
  "to_dataframe rat_ops iso_to_datetime \<lparr>year = 2024, month = 3, day = 10\<rparr> [example_sub]
     = Some (Inr [example_row]) \<and>
   has_column s_next_renewal [example_sub] \<and>
   r_next_renewal example_row = iso_to_datetime [Some ''2020-02-15''] 0"
proof -
  have h: "has_column s_next_renewal [example_sub]"
    by (simp add: has_column_def example_sub_def)
  from next_renewal_persisted_or_projected [OF to_dataframe_example, of 0] h to_dataframe_example
  show ?thesis by (simp add: example_sub_def cell_def)
qed

text \<open>
  The claim as stated fails for the example record: started on 2020-01-15, monthly, stored
  with the next renewal 2020-02-15 and read on 2024-03-10, it keeps 2020-02-15 in the
  table, while the fresh projection is 2024-03-15.
\<close>

theorem stored_next_renewal_not_recomputed:
  "to_dataframe rat_ops iso_to_datetime \<lparr>year = 2024, month = 3, day = 10\<rparr> [example_sub]
     = Some (Inr [example_row]) \<and>
   r_next_renewal example_row = Some \<lparr>year = 2020, month = 2, day = 15\<rparr> \<and>
   s_start_date example_sub = Val ''2020-01-15'' \<and> s_frequency example_sub = Val ''Mensuel'' \<and>
   next_renewal_from rat_ops \<lparr>year = 2024, month = 3, day = 10\<rparr> ''2020-01-15'' (Some ''Mensuel'')
     = Some (Inr (Some ''2024-03-15''))"
proof -
  have "next_renewal_from rat_ops \<lparr>year = 2024, month = 3, day = 10\<rparr> ''2020-01-15'' (Some ''Mensuel'')
     = Some (Inr (Some ''2024-03-15''))"
    by (simp add: eval_defs)
  then show ?thesis
    using to_dataframe_example by (simp add: example_row_def example_sub_def)
qed

section \<open>The upcoming renewals: claim C5\<close>

text \<open>
  What the query computes for a clock inside its day: the active rows whose next renewal
  is at most seven days after today.  There is no lower bound.
\<close>

lemma timestamp_le_iff:
  assumes "0 \<le> ns" "ns < NS_PER_DAY"
  shows "(a * NS_PER_DAY \<le> b * NS_PER_DAY + ns + 7 * NS_PER_DAY) = (a \<le> b + 7)"
proof -
  have pos: "0 < NS_PER_DAY" by (simp add: NS_PER_DAY_def)
  show ?thesis
  proof
    assume le: "a * NS_PER_DAY \<le> b * NS_PER_DAY + ns + 7 * NS_PER_DAY"
    show "a \<le> b + 7"
    proof (rule ccontr)
      assume "\<not> a \<le> b + 7"
      then have "b + 7 + 1 \<le> a" by simp
      then have "(b + 7 + 1) * NS_PER_DAY \<le> a * NS_PER_DAY"
        using pos by (simp add: mult_right_mono)
      with le assms(2) show False by (simp add: algebra_simps)
    qed
  next
    assume "a \<le> b + 7"
    then have "a * NS_PER_DAY \<le> (b + 7) * NS_PER_DAY"
      using pos by (simp add: mult_right_mono)
    with assms(1) show "a * NS_PER_DAY \<le> b * NS_PER_DAY + ns + 7 * NS_PER_DAY"
      by (simp add: algebra_simps)
  qed
qed

lemma renew_soon_iff:
  assumes "0 \<le> ts_ns now" "ts_ns now < NS_PER_DAY"
  shows "r \<in> set (renew_soon now df) \<longleftrightarrow>
         r \<in> set df \<and> r_status r = Some ''active'' \<and>
         (\<exists>d. r_next_renewal r = Some d \<and> toordinal d \<le> toordinal (ts_date now) + 7)"
  using timestamp_le_iff [OF assms]
  by (auto simp: renew_soon_def df_active_def timestamp_value_def split: option.splits)

lemmas ordinal_defs =
  timestamp_value_def toordinal_def days_before_year_def days_before_month_def mdays_def upto.simps
  isleap_def NS_PER_DAY_def

lemma toordinal_example: "toordinal \<lparr>year = 2024, month = 3, day = 10\<rparr> = 738955"
  by (simp add: ordinal_defs)

text \<open>
  Claim C5 says that the query returns exactly the active records whose next renewal
  lies in the closed interval from today to today plus seven days, and none before
  today.  The code evaluated at the example record, read on 2024-03-10 with the stored
  next renewal 2020-02-15: the record is returned, although its renewal date is before
  today.  The headings of the dashboard announce the renewals of the next seven days.
\<close>

theorem renew_soon_keeps_past_renewal:
  "to_dataframe rat_ops iso_to_datetime \<lparr>year = 2024, month = 3, day = 10\<rparr> [example_sub]
     = Some (Inr [example_row]) \<and>
   r_next_renewal example_row = Some \<lparr>year = 2020, month = 2, day = 15\<rparr> \<and>
   date_less \<lparr>year = 2020, month = 2, day = 15\<rparr> \<lparr>year = 2024, month = 3, day = 10\<rparr> \<and>
   renew_soon \<lparr>ts_date = \<lparr>year = 2024, month = 3, day = 10\<rparr>, ts_ns = 0\<rparr> [example_row]
     = [example_row]"
proof -
  have "renew_soon \<lparr>ts_date = \<lparr>year = 2024, month = 3, day = 10\<rparr>, ts_ns = 0\<rparr> [example_row]
     = [example_row]"
    by (simp add: renew_soon_def df_active_def example_row_def ordinal_defs)
  moreover have "date_less \<lparr>year = 2020, month = 2, day = 15\<rparr> \<lparr>year = 2024, month = 3, day = 10\<rparr>"
    by (simp add: date_less_def)
  ultimately show ?thesis
    using to_dataframe_example by (simp add: example_row_def)
qed

section \<open>Creating a record: claim C6\<close>

text \<open>
  Claim C6.  A create request whose name is empty, whose category is empty, or whose cost
  is not above zero is rejected with the error notice before the store is read or
  written: the stored collection afterwards is the one before, with no record added.
\<close>

theorem invalid_create_rejected:
  assumes "f_name fm = [] \<or> f_category fm = [] \<or> fl_le ops (f_cost fm) (fl_of_int ops 0)"
  shows "submit_add_sub ops today now_str fm stored = Some (Inr (Error_notice, stored))"
  using assms by (simp add: submit_add_sub_def)

text \<open>The theorem at a form with the cost 0.\<close>

theorem invalid_create_rejected_witness:
  "fl_le rat_ops (f_cost example_form) (fl_of_int rat_ops 0) \<and>
   submit_add_sub rat_ops \<lparr>year = 2024, month = 3, day = 10\<rparr> ''2024-03-10 09:00:00''
     example_form [example_sub] = Some (Inr (Error_notice, [example_sub]))"
proof -
  have h: "fl_le rat_ops (f_cost example_form) (fl_of_int rat_ops 0)"
    by (simp add: rat_ops_def example_form_def)
  then have "f_name example_form = [] \<or> f_category example_form = [] \<or>
      fl_le rat_ops (f_cost example_form) (fl_of_int rat_ops 0)" by simp
  from invalid_create_rejected [OF this] h show ?thesis by blast
qed

section \<open>Deleting a record: claim C7\<close>











section \<open>The most expensive records: claim C9\<close>





end
